theory Spec2Isabelle
  imports Main "HOL-Library.Word" "HOL-Library.Sublist" "HOL-Library.AList"
begin

section \<open>Go values\<close>

text \<open>
  The file under verification is \<^verbatim>\<open>pkg/volume/csi/csi_util.go\<close>.

  A Go \<^verbatim>\<open>map[string]string\<close> value is a reference to a map object (or nil). The map
  objects live in a heap indexed by addresses, so that an assignment \<^verbatim>\<open>m[key] = v\<close>
  through one reference is seen through every other reference to the same object. The
  contents of one map object are an association list; \<^verbatim>\<open>m[key] = v\<close> is
  \<open>AList.update key v\<close>, and a lookup is \<open>map_of\<close>.
\<close>

type_synonym go_map = "(string \<times> string) list"

type_synonym addr = nat

type_synonym heap = "addr \<Rightarrow> go_map option"

text \<open>
  The value held by a struct field, as far as \<^verbatim>\<open>SanitizeMsg\<close> can tell values apart: a value
  whose type is exactly \<^verbatim>\<open>map[string]string\<close> (a nil map or a reference), a plain string, or
  a value of any other type.
\<close>

datatype go_value = MapStringString "addr option" | StringValue string | OtherValue

text \<open>A struct: its fields in declaration order, by their Go names.\<close>

type_synonym go_struct = "(string \<times> go_value) list"

text \<open>
  The dynamic value stored in the interface \<^verbatim>\<open>pb\<close>, as \<^verbatim>\<open>reflect.ValueOf\<close> sees it:
  a pointer to a struct (what generated protobuf messages are), a nil pointer, a struct
  held by value, or a value of another kind.
\<close>

datatype receiver = PtrTo go_struct | NilPtr | StructVal go_struct | NonStruct

datatype error = Error string

text \<open>
  Run-time panics of the Go code: a slice expression out of range, and the panics of
  package \<^verbatim>\<open>reflect\<close> (\<^verbatim>\<open>FieldByName\<close> on a value that is not a struct, \<^verbatim>\<open>Interface\<close> on
  the zero Value or on a value obtained from an unexported field, \<^verbatim>\<open>Elem\<close> on a struct).
\<close>

datatype panic =
    SliceBoundsOutOfRange
  | FieldByNameOnNonStruct
  | InterfaceOnZeroValue
  | InterfaceOnUnexportedField
  | ElemOnStruct
  | NilPointerDereference

section \<open>Schema metadata\<close>

text \<open>
  \<^verbatim>\<open>descr.FieldOptions\<close> with the one extension the code asks for: \<open>csi_secret\<close> is
  \<open>None\<close> when the extension \<^verbatim>\<open>csipb.E_CsiSecret\<close> is absent and \<open>Some b\<close> when it is
  present with value \<open>b\<close>. \<^verbatim>\<open>descr.FieldDescriptorProto\<close> has the optional name and the
  options pointer (\<open>None\<close> is nil).
\<close>

record FieldOptions =
  csi_secret :: "bool option"

record FieldDescriptorProto =
  Name :: "string option"
  Options :: "FieldOptions option"

text \<open>
  A value implementing \<^verbatim>\<open>descriptor.Message\<close>: its dynamic value, the field list of its
  message descriptor (\<^verbatim>\<open>md.GetField()\<close>, \<open>None\<close> for a nil slice) and its \<^verbatim>\<open>String()\<close>
  method, which \<^verbatim>\<open>fmt.Sprintf("%v", msg)\<close> calls. \<^verbatim>\<open>descriptor.Message\<close> embeds
  \<^verbatim>\<open>proto.Message\<close>, so the assertion \<^verbatim>\<open>pb.(proto.Message)\<close> of line 178 cannot fail once the
  assertion of line 155 has succeeded.
\<close>

record proto_message =
  dynamic_value :: receiver
  Field :: "FieldDescriptorProto list option"
  String_method :: "heap \<Rightarrow> receiver \<Rightarrow> string"

datatype pb_value = NotDescriptorMessage | DescriptorMessage proto_message

definition GetName :: "FieldDescriptorProto \<Rightarrow> string" where
  "GetName field = (case Name field of None \<Rightarrow> [] | Some n \<Rightarrow> n)"

text \<open>
  \<^verbatim>\<open>proto.GetExtension(field.Options, csipb.E_CsiSecret)\<close>: an error for nil options and for
  a missing extension (\<open>csi_secret\<close> has no default), the decoded \<^verbatim>\<open>*bool\<close> otherwise.
\<close>

definition GetExtension :: "FieldOptions option \<Rightarrow> error + bool" where
  "GetExtension opts =
     (case opts of
        None \<Rightarrow> Inl (Error ''proto: nil *descriptor.FieldOptions is not extendable'')
      | Some fo \<Rightarrow>
          (case csi_secret fo of
             None \<Rightarrow> Inl (Error ''proto: missing extension'')
           | Some b \<Rightarrow> Inr b))"

section \<open>SanitizeMsg\<close>

definition marker :: string where
  "marker = ''* * * Sanitized * * *''"

text \<open>
  Lines 164-174: the loop over \<^verbatim>\<open>fields\<close> (here \<open>flds\<close>) that appends to \<open>sanitizeFields\<close>. The
  \<^verbatim>\<open>break\<close> of line 171 leaves the loop right after the first append. The assertion
  \<^verbatim>\<open>opt.(*bool)\<close> holds whenever \<^verbatim>\<open>GetExtension\<close> returns no error.
\<close>

fun collectSanitizeFields ::
  "FieldDescriptorProto list \<Rightarrow> FieldDescriptorProto list \<Rightarrow> FieldDescriptorProto list" where
  "collectSanitizeFields [] sanitizeFields = sanitizeFields"
| "collectSanitizeFields (field # flds) sanitizeFields =
     (case GetExtension (Options field) of
        Inr opt \<Rightarrow> sanitizeFields @ [field]
      | Inl err \<Rightarrow> collectSanitizeFields flds sanitizeFields)"

text \<open>
  \<^verbatim>\<open>strings.ToUpper\<close> on ASCII text: the letters a to z become A to Z, every other byte is
  kept. Field names of a descriptor are protobuf identifiers, hence ASCII.
\<close>

definition ToUpper_char :: "char \<Rightarrow> char" where
  "ToUpper_char c =
     (case map_of (zip ''abcdefghijklmnopqrstuvwxyz'' ''ABCDEFGHIJKLMNOPQRSTUVWXYZ'') c of
        Some u \<Rightarrow> u
      | None \<Rightarrow> c)"

definition ToUpper :: "string \<Rightarrow> string" where
  "ToUpper s = map ToUpper_char s"

text \<open>A Go identifier is exported when it starts with an upper-case letter.\<close>

definition exported :: "string \<Rightarrow> bool" where
  "exported fieldName =
     (case fieldName of [] \<Rightarrow> False | c # _ \<Rightarrow> c \<in> set ''ABCDEFGHIJKLMNOPQRSTUVWXYZ'')"

text \<open>
  \<^verbatim>\<open>reflect.Indirect(s)\<close> followed by the kind check of \<^verbatim>\<open>FieldByName\<close>: the struct whose
  fields are looked up, or \<open>None\<close> where \<^verbatim>\<open>FieldByName\<close> panics (the zero Value of a nil
  pointer, a value that is not a struct).
\<close>

definition Indirect :: "receiver \<Rightarrow> go_struct option" where
  "Indirect s =
     (case s of
        PtrTo st \<Rightarrow> Some st
      | StructVal st \<Rightarrow> Some st
      | NilPtr \<Rightarrow> None
      | NonStruct \<Rightarrow> None)"

definition FieldByName :: "go_struct \<Rightarrow> string \<Rightarrow> go_value option" where
  "FieldByName st fieldName = map_of st fieldName"

text \<open>Lines 190-192: \<^verbatim>\<open>for key := range m { m[key] = "* * * Sanitized * * *" }\<close>.\<close>

definition rangeAssign :: "go_map \<Rightarrow> go_map" where
  "rangeAssign m = fold (\<lambda>key m'. AList.update key marker m') (map fst m) m"

text \<open>The same loop on a map reference: a nil map has no keys.\<close>

definition rangeAssignRef :: "heap \<Rightarrow> addr option \<Rightarrow> heap" where
  "rangeAssignRef h m =
     (case m of
        None \<Rightarrow> h
      | Some a \<Rightarrow> (case h a of None \<Rightarrow> h | Some obj \<Rightarrow> h(a \<mapsto> rangeAssign obj)))"

text \<open>How one iteration of the loop of lines 182-198 ends.\<close>

datatype control = Panics panic | Returns string | Continues

text \<open>
  Lines 183-197, the body of the loop over \<open>sanitizeFields\<close>, on the heap and the dynamic
  value of \<open>msg\<close>. \<^verbatim>\<open>fieldName[:1]\<close> panics on the empty name. \<^verbatim>\<open>CanSet\<close> holds for an
  exported field of a struct reached through a pointer; \<^verbatim>\<open>s.Elem()\<close> panics when \<open>s\<close>
  is a struct held by value.
\<close>

definition sanitizeField ::
  "FieldDescriptorProto \<Rightarrow> heap \<Rightarrow> receiver \<Rightarrow> control \<times> heap \<times> receiver" where
  "sanitizeField field h s =
     (let fieldName = GetName field in
      if fieldName = [] then (Panics SliceBoundsOutOfRange, h, s)
      else
        let fieldName = ToUpper (take 1 fieldName) @ drop 1 fieldName in
        (case Indirect s of
           None \<Rightarrow> (Panics FieldByNameOnNonStruct, h, s)
         | Some st \<Rightarrow>
             (case FieldByName st fieldName of
                None \<Rightarrow> (Panics InterfaceOnZeroValue, h, s)
              | Some v \<Rightarrow>
                  if \<not> exported fieldName then (Panics InterfaceOnUnexportedField, h, s)
                  else
                    (case v of
                       MapStringString m \<Rightarrow>
                         (let h' = rangeAssignRef h m in
                          (case s of
                             PtrTo st' \<Rightarrow>
                               if exported fieldName
                               then (Continues, h',
                                     PtrTo (AList.update fieldName (MapStringString m) st'))
                               else (Returns [], h', s)
                           | _ \<Rightarrow> (Panics ElemOnStruct, h', s)))
                     | _ \<Rightarrow> (Returns [], h, s)))))"

fun sanitizeLoop ::
  "FieldDescriptorProto list \<Rightarrow> heap \<Rightarrow> receiver \<Rightarrow> control \<times> heap \<times> receiver" where
  "sanitizeLoop [] h s = (Continues, h, s)"
| "sanitizeLoop (field # sanitizeFields) h s =
     (case sanitizeField field h s of
        (Continues, h', s') \<Rightarrow> sanitizeLoop sanitizeFields h' s'
      | (Panics p, h', s') \<Rightarrow> (Panics p, h', s')
      | (Returns r, h', s') \<Rightarrow> (Returns r, h', s'))"

text \<open>
  \<^verbatim>\<open>SanitizeMsg\<close> (lines 154-201). The result is the returned string or the panic, together
  with the heap and the value of \<open>pb\<close> as the caller finds them afterwards.
\<close>

definition SanitizeMsg :: "heap \<Rightarrow> pb_value \<Rightarrow> (panic + string) \<times> heap \<times> pb_value" where
  "SanitizeMsg h pb =
     (case pb of
        NotDescriptorMessage \<Rightarrow> (Inr [], h, pb)
      | DescriptorMessage msg \<Rightarrow>
          (case Field msg of
             None \<Rightarrow> (Inr [], h, pb)
           | Some flds \<Rightarrow>
               (let sanitizeFields = collectSanitizeFields flds [] in
                if length sanitizeFields = 0 then (Inr [], h, pb)
                else
                  (case sanitizeLoop sanitizeFields h (dynamic_value msg) of
                     (Panics p, h', s') \<Rightarrow>
                       (Inl p, h', DescriptorMessage (msg\<lparr>dynamic_value := s'\<rparr>))
                   | (Returns r, h', s') \<Rightarrow>
                       (Inr r, h', DescriptorMessage (msg\<lparr>dynamic_value := s'\<rparr>))
                   | (Continues, h', s') \<Rightarrow>
                       (Inr (String_method msg h' s'), h',
                        DescriptorMessage (msg\<lparr>dynamic_value := s'\<rparr>))))))"

text \<open>
  The fields the loop of lines 164-174 looks for: \<^verbatim>\<open>GetExtension\<close> returns no error, that
  is, the \<open>csi_secret\<close> extension is present on the field's options.
\<close>

definition annotated :: "FieldDescriptorProto \<Rightarrow> bool" where
  "annotated field = (case GetExtension (Options field) of Inr opt \<Rightarrow> True | Inl err \<Rightarrow> False)"

text \<open>
  The field name the loop body computes at line 184 from the descriptor's name:
  \<^verbatim>\<open>strings.ToUpper(fieldName[:1]) + fieldName[1:]\<close>.
\<close>

definition capitalised :: "string \<Rightarrow> string" where
  "capitalised fieldName = ToUpper (take 1 fieldName) @ drop 1 fieldName"

text \<open>
  The descriptor the code redacts: the first annotated field of the schema, if any.
\<close>

definition collected :: "proto_message \<Rightarrow> FieldDescriptorProto option" where
  "collected msg = (case Field msg of None \<Rightarrow> None | Some flds \<Rightarrow> find annotated flds)"

text \<open>
  The run-time value of a described field, as line 186 reads it: the descriptor has a
  name, the dynamic value is a struct or a pointer to one, and the struct has an exported
  field under the capitalised name.
\<close>

definition fieldValue :: "proto_message \<Rightarrow> FieldDescriptorProto \<Rightarrow> go_value option" where
  "fieldValue msg field =
     (if GetName field = [] \<or> \<not> exported (capitalised (GetName field)) then None
      else
        (case Indirect (dynamic_value msg) of
           None \<Rightarrow> None
         | Some st \<Rightarrow> FieldByName st (capitalised (GetName field))))"

text \<open>
  The map objects that hold secrets: \<open>b\<close> is referenced by an annotated field of the
  message.
\<close>

definition sensitiveMap :: "pb_value \<Rightarrow> addr \<Rightarrow> bool" where
  "sensitiveMap pb b =
     (case pb of
        NotDescriptorMessage \<Rightarrow> False
      | DescriptorMessage msg \<Rightarrow>
          (case Field msg of
             None \<Rightarrow> False
           | Some flds \<Rightarrow>
               list_ex (\<lambda>field. annotated field \<and>
                          fieldValue msg field = Some (MapStringString (Some b))) flds))"

section \<open>Paths\<close>

text \<open>
  \<^verbatim>\<open>path.Join\<close> and \<^verbatim>\<open>path.Clean\<close> of Go's standard library, by path elements. \<^verbatim>\<open>Clean\<close>
  drops empty and \<open>.\<close> elements, lets a \<open>..\<close> element remove the element before it
  (at the start of a rooted path it is dropped, at the start of a relative path it is
  kept), and returns \<open>.\<close> for an empty result. \<^verbatim>\<open>Join\<close> ignores leading empty
  arguments, joins the rest with slashes and cleans the result.
\<close>

fun splitSlash :: "string \<Rightarrow> string list" where
  "splitSlash [] = [[]]"
| "splitSlash (c # cs) =
     (if c = CHR ''/'' then [] # splitSlash cs
      else (case splitSlash cs of [] \<Rightarrow> [[c]] | x # xs \<Rightarrow> (c # x) # xs))"

fun joinSlash :: "string list \<Rightarrow> string" where
  "joinSlash [] = []"
| "joinSlash [x] = x"
| "joinSlash (x # y # ys) = x @ CHR ''/'' # joinSlash (y # ys)"

definition cleanStep :: "bool \<Rightarrow> string list \<Rightarrow> string \<Rightarrow> string list" where
  "cleanStep rooted out elem =
     (if elem = [] \<or> elem = ''.'' then out
      else if elem = ''..'' then
        (if out \<noteq> [] \<and> last out \<noteq> ''..'' then butlast out
         else if rooted then out
         else out @ [''..''])
      else out @ [elem])"

definition path_Clean :: "string \<Rightarrow> string" where
  "path_Clean path =
     (if path = [] then ''.''
      else
        (let rooted = (hd path = CHR ''/'');
             out = fold (\<lambda>elem out. cleanStep rooted out elem) (splitSlash path) []
         in if rooted then CHR ''/'' # joinSlash out
            else if out = [] then ''.''
            else joinSlash out))"

definition path_Join :: "string list \<Rightarrow> string" where
  "path_Join elem =
     (case dropWhile (\<lambda>e. e = []) elem of
        [] \<Rightarrow> []
      | e # es \<Rightarrow> path_Clean (joinSlash (e # es)))"

text \<open>Elements that \<^verbatim>\<open>Clean\<close> keeps: not empty, not \<open>.\<close>, without a slash.\<close>

definition kept :: "string \<Rightarrow> bool" where
  "kept e \<longleftrightarrow> e \<noteq> [] \<and> e \<noteq> ''.'' \<and> CHR ''/'' \<notin> set e"

section \<open>Volume device directories\<close>

text \<open>
  \<^verbatim>\<open>csiPluginName\<close> is declared elsewhere in the package; the comments of lines 118 and
  125 give its value. \<^verbatim>\<open>volume.VolumeHost\<close> is an interface: the host is the one method the two
  functions call. \<^verbatim>\<open>kstrings.EscapeQualifiedNameForDisk\<close> is not part of the file; it is a
  parameter.
\<close>

definition csiPluginName :: string where
  "csiPluginName = ''kubernetes.io/csi''"

record VolumeHost =
  GetVolumeDevicePluginDir :: "string \<Rightarrow> string"

definition getVolumeDevicePluginDir ::
  "(string \<Rightarrow> string) \<Rightarrow> string \<Rightarrow> VolumeHost \<Rightarrow> string" where
  "getVolumeDevicePluginDir EscapeQualifiedNameForDisk specVolID host =
     (let sanitizedSpecVolID = EscapeQualifiedNameForDisk specVolID
      in path_Join [GetVolumeDevicePluginDir host csiPluginName, sanitizedSpecVolID, ''dev''])"

definition getVolumeDeviceDataDir ::
  "(string \<Rightarrow> string) \<Rightarrow> string \<Rightarrow> VolumeHost \<Rightarrow> string" where
  "getVolumeDeviceDataDir EscapeQualifiedNameForDisk specVolID host =
     (let sanitizedSpecVolID = EscapeQualifiedNameForDisk specVolID
      in path_Join [GetVolumeDevicePluginDir host csiPluginName, sanitizedSpecVolID, ''data''])"

text \<open>
  A directory path as the prefix of the paths below it: the path and a slash, the root
  itself, and nothing for the current directory.
\<close>

definition dirPrefix :: "string \<Rightarrow> string" where
  "dirPrefix p =
     (if p = [] \<or> p = ''.'' then []
      else if p = ''/'' then ''/''
      else p @ ''/'')"

section \<open>Volume data files\<close>





subsection \<open>The JSON encoder of Go on string maps\<close>

text \<open>
  What \<^verbatim>\<open>encoding/json\<close> documents for the encoder, for the examples: a nil map is
  \<^verbatim>\<open>null\<close>; a map is an object whose members are sorted by key; \<^verbatim>\<open>Encode\<close> ends the
  value with a newline. In a string the quote and the backslash are escaped with a
  backslash, newline, carriage return and tab are written \<^verbatim>\<open>\n\<close>, \<^verbatim>\<open>\r\<close>, \<^verbatim>\<open>\t\<close>, the
  other control characters and \<^verbatim>\<open><\<close>, \<^verbatim>\<open>>\<close>, \<^verbatim>\<open>&\<close> are written as a backslash,
  \<open>u00\<close> and two hexadecimal digits, the line and paragraph separators (U+2028, U+2029)
  as a backslash and \<open>u2028\<close> or \<open>u2029\<close>; every other valid UTF-8 sequence is copied,
  and every byte that is not part of one is replaced by a backslash and \<open>ufffd\<close>, the
  escape of the replacement character U+FFFD.
\<close>

definition continuation :: "char \<Rightarrow> bool" where
  "continuation b \<longleftrightarrow> (0x80::nat) \<le> of_char b \<and> (of_char b :: nat) \<le> 0xBF"

text \<open>
  The well-formed UTF-8 sequences of two, three and four bytes: no overlong encoding, no
  surrogate, nothing above U+10FFFF.
\<close>

definition twoBytes :: "char \<Rightarrow> char \<Rightarrow> bool" where
  "twoBytes b0 b1 \<longleftrightarrow>
     (0xC2::nat) \<le> of_char b0 \<and> (of_char b0 :: nat) \<le> 0xDF \<and> continuation b1"

definition threeBytes :: "char \<Rightarrow> char \<Rightarrow> char \<Rightarrow> bool" where
  "threeBytes b0 b1 b2 \<longleftrightarrow>
     (let v = (\<lambda>b. of_char b :: nat) in
      ((v b0 = 0xE0 \<and> 0xA0 \<le> v b1 \<and> v b1 \<le> 0xBF) \<or>
       (0xE1 \<le> v b0 \<and> v b0 \<le> 0xEC \<and> continuation b1) \<or>
       (v b0 = 0xED \<and> 0x80 \<le> v b1 \<and> v b1 \<le> 0x9F) \<or>
       (0xEE \<le> v b0 \<and> v b0 \<le> 0xEF \<and> continuation b1)) \<and>
      continuation b2)"

definition fourBytes :: "char \<Rightarrow> char \<Rightarrow> char \<Rightarrow> char \<Rightarrow> bool" where
  "fourBytes b0 b1 b2 b3 \<longleftrightarrow>
     (let v = (\<lambda>b. of_char b :: nat) in
      ((v b0 = 0xF0 \<and> 0x90 \<le> v b1 \<and> v b1 \<le> 0xBF) \<or>
       (0xF1 \<le> v b0 \<and> v b0 \<le> 0xF3 \<and> continuation b1) \<or>
       (v b0 = 0xF4 \<and> 0x80 \<le> v b1 \<and> v b1 \<le> 0x8F)) \<and>
      continuation b2 \<and> continuation b3)"

text \<open>
  The length of the UTF-8 sequence of two to four bytes at the head of the string, and 0
  when there is none (\<^verbatim>\<open>utf8.DecodeRuneInString\<close> then returns \<^verbatim>\<open>RuneError\<close> of size 1).
\<close>

definition utf8_size :: "string \<Rightarrow> nat" where
  "utf8_size s =
     (case s of
        b0 # b1 # s1 \<Rightarrow>
          if twoBytes b0 b1 then 2
          else
            (case s1 of
               b2 # s2 \<Rightarrow>
                 if threeBytes b0 b1 b2 then 3
                 else
                   (case s2 of
                      b3 # s3 \<Rightarrow> if fourBytes b0 b1 b2 b3 then 4 else 0
                    | [] \<Rightarrow> 0)
             | [] \<Rightarrow> 0)
      | _ \<Rightarrow> 0)"

definition hexDigit :: "nat \<Rightarrow> char" where
  "hexDigit n = ''0123456789abcdef'' ! n"

definition escapeASCII :: "char \<Rightarrow> string" where
  "escapeASCII b =
     (if b = CHR 0x22 \<or> b = CHR 0x5C then [CHR 0x5C, b]
      else if b = CHR 0x0A then [CHR 0x5C, CHR ''n'']
      else if b = CHR 0x0D then [CHR 0x5C, CHR ''r'']
      else if b = CHR 0x09 then [CHR 0x5C, CHR ''t'']
      else if (of_char b :: nat) < 0x20 \<or> b \<in> set ''<>&''
      then CHR 0x5C # ''u00'' @ [hexDigit (of_char b div 16), hexDigit (of_char b mod 16)]
      else [b])"

text \<open>
  The body of a JSON string. \<open>copy\<close> counts the bytes of the current UTF-8 sequence
  still to be copied, \<open>skip\<close> those still to be passed over.
\<close>

fun encodeBytes :: "nat \<Rightarrow> nat \<Rightarrow> string \<Rightarrow> string" where
  "encodeBytes copy skip [] = []"
| "encodeBytes (Suc copy) skip (b # bs) = b # encodeBytes copy skip bs"
| "encodeBytes 0 (Suc skip) (b # bs) = encodeBytes 0 skip bs"
| "encodeBytes 0 0 (b # bs) =
     (if (of_char b :: nat) < 0x80 then escapeASCII b @ encodeBytes 0 0 bs
      else if utf8_size (b # bs) = 0 then CHR 0x5C # ''ufffd'' @ encodeBytes 0 0 bs
      else if take 3 (b # bs) = [CHR 0xE2, CHR 0x80, CHR 0xA8]
      then CHR 0x5C # ''u2028'' @ encodeBytes 0 2 bs
      else if take 3 (b # bs) = [CHR 0xE2, CHR 0x80, CHR 0xA9]
      then CHR 0x5C # ''u2029'' @ encodeBytes 0 2 bs
      else b # encodeBytes (utf8_size (b # bs) - 1) 0 bs)"

definition encodeString :: "string \<Rightarrow> string" where
  "encodeString s = CHR 0x22 # encodeBytes 0 0 s @ [CHR 0x22]"

text \<open>Go compares strings byte by byte.\<close>

fun stringLess :: "string \<Rightarrow> string \<Rightarrow> bool" where
  "stringLess [] [] = False"
| "stringLess [] (b # bs) = True"
| "stringLess (a # as) [] = False"
| "stringLess (a # as) (b # bs) =
     ((of_char a :: nat) < of_char b \<or> (a = b \<and> stringLess as bs))"

fun insertByKey :: "string \<times> string \<Rightarrow> go_map \<Rightarrow> go_map" where
  "insertByKey kv [] = [kv]"
| "insertByKey kv (kv' # m) =
     (if stringLess (fst kv') (fst kv) then kv' # insertByKey kv m else kv # kv' # m)"

definition sortByKey :: "go_map \<Rightarrow> go_map" where
  "sortByKey m = foldr insertByKey m []"

fun encodeMembers :: "go_map \<Rightarrow> string" where
  "encodeMembers [] = []"
| "encodeMembers [(k, v)] = encodeString k @ '':'' @ encodeString v"
| "encodeMembers ((k, v) # kv # m) =
     encodeString k @ '':'' @ encodeString v @ '','' @ encodeMembers (kv # m)"

definition goEncode :: "go_map option \<Rightarrow> error + string" where
  "goEncode data =
     (case data of
        None \<Rightarrow> Inr (''null'' @ [CHR 0x0A])
      | Some m \<Rightarrow> Inr (''{'' @ encodeMembers (sortByKey m) @ ''}'' @ [CHR 0x0A]))"

section \<open>Credentials\<close>

text \<open>
  \<^verbatim>\<open>api.SecretReference\<close> and the \<open>Data\<close> of an \<^verbatim>\<open>api.Secret\<close> (a map from names to byte
  slices, as an association list; ranging over a nil map visits nothing, as over the
  empty list). The lookup \<^verbatim>\<open>k8s.CoreV1().Secrets(namespace).Get(name, ...)\<close> is a
  parameter. \<^verbatim>\<open>string(value)\<close> turns bytes into the string of the same bytes.
\<close>

type_synonym byte = "8 word"

record SecretReference =
  secretName :: string
  secretNamespace :: string

record Secret =
  Data :: "(string \<times> byte list) list"

definition string_of_bytes :: "byte list \<Rightarrow> string" where
  "string_of_bytes bs = map (\<lambda>b. char_of (unat b)) bs"

definition getCredentialsFromSecret ::
  "(string \<Rightarrow> string \<Rightarrow> error + Secret) \<Rightarrow> SecretReference option \<Rightarrow>
     panic + (go_map option \<times> error option)" where
  "getCredentialsFromSecret Get secretRef =
     (let credentials = [] in
      (case secretRef of
         None \<Rightarrow> Inl NilPointerDereference
       | Some ref \<Rightarrow>
           (case Get (secretNamespace ref) (secretName ref) of
              Inl err \<Rightarrow> Inr (Some credentials, Some err)
            | Inr secret \<Rightarrow>
                Inr (Some (fold (\<lambda>(key, value) credentials.
                                   AList.update key (string_of_bytes value) credentials)
                             (Data secret) credentials),
                     None))))"

section \<open>Example inputs\<close>

text \<open>
  A \<^verbatim>\<open>String()\<close> method for the examples, shaped like the compact text form that generated
  protobuf messages print: \<^verbatim>\<open>Name:"value" \<close> for a string field and one
  \<^verbatim>\<open>Name:<key:"k" value:"v" > \<close> group for every entry of a map field.
\<close>

definition quoted :: "string \<Rightarrow> string" where
  "quoted s = CHR 0x22 # s @ [CHR 0x22]"

fun showEntries :: "string \<Rightarrow> go_map \<Rightarrow> string" where
  "showEntries name [] = []"
| "showEntries name ((k, v) # m) =
     name @ '':<key:'' @ quoted k @ '' value:'' @ quoted v @ '' > '' @ showEntries name m"

fun showField :: "heap \<Rightarrow> string \<times> go_value \<Rightarrow> string" where
  "showField h (name, StringValue s) = name @ '':'' @ quoted s @ '' ''"
| "showField h (name, MapStringString None) = []"
| "showField h (name, MapStringString (Some a)) =
     (case h a of None \<Rightarrow> [] | Some m \<Rightarrow> showEntries name m)"
| "showField h (name, OtherValue) = []"

definition exampleString :: "heap \<Rightarrow> receiver \<Rightarrow> string" where
  "exampleString h s =
     (case s of
        PtrTo st \<Rightarrow> concat (map (showField h) st)
      | StructVal st \<Rightarrow> concat (map (showField h) st)
      | NilPtr \<Rightarrow> ''<nil>''
      | NonStruct \<Rightarrow> [])"

text \<open>Field descriptors: a plain field, and fields carrying the \<open>csi_secret\<close> extension.\<close>

definition plainField :: "string \<Rightarrow> FieldDescriptorProto" where
  "plainField n = \<lparr>Name = Some n, Options = None\<rparr>"

definition secretField :: "string \<Rightarrow> FieldDescriptorProto" where
  "secretField n = \<lparr>Name = Some n, Options = Some \<lparr>csi_secret = Some True\<rparr>\<rparr>"

text \<open>
  The message of the spec's example scenario: \<open>VolumeId = "vol-123"\<close>, not annotated, and
  \<open>Secrets = {"username": "alice", "password": "p@ss"}\<close>, annotated.
\<close>

definition secretsHeap :: heap where
  "secretsHeap = (\<lambda>a. None)(0 \<mapsto> [(''username'', ''alice''), (''password'', ''p@ss'')])"

definition secretsMsg :: proto_message where
  "secretsMsg =
     \<lparr>dynamic_value =
        PtrTo [(''VolumeId'', StringValue ''vol-123''), (''Secrets'', MapStringString (Some 0))],
      Field = Some [plainField ''volume_id'', secretField ''secrets''],
      String_method = exampleString\<rparr>"

text \<open>A message with no annotated field.\<close>

definition plainMsg :: proto_message where
  "plainMsg =
     \<lparr>dynamic_value = PtrTo [(''VolumeId'', StringValue ''vol-123'')],
      Field = Some [plainField ''volume_id''],
      String_method = exampleString\<rparr>"




text \<open>
  A message with two annotated fields, each holding a mapping of its own.
\<close>

definition twoSecretsHeap :: heap where
  "twoSecretsHeap =
     (\<lambda>a. None)(0 \<mapsto> [(''username'', ''alice'')], 1 \<mapsto> [(''token'', ''t0k3n'')])"

definition twoSecretsMsg :: proto_message where
  "twoSecretsMsg =
     \<lparr>dynamic_value =
        PtrTo [(''Secrets'', MapStringString (Some 0)),
               (''Credentials'', MapStringString (Some 1))],
      Field = Some [secretField ''secrets'', secretField ''credentials''],
      String_method = exampleString\<rparr>"

text \<open>
  A message whose annotated field has a name of several words: the generated Go struct
  names the field \<^verbatim>\<open>NodePublishSecrets\<close>. And a nil pointer to the message of the spec's
  example.
\<close>

definition snakeMsg :: proto_message where
  "snakeMsg =
     \<lparr>dynamic_value = PtrTo [(''NodePublishSecrets'', MapStringString (Some 0))],
      Field = Some [secretField ''node_publish_secrets''],
      String_method = exampleString\<rparr>"

definition nilMsg :: proto_message where
  "nilMsg =
     \<lparr>dynamic_value = NilPtr,
      Field = Some [plainField ''volume_id'', secretField ''secrets''],
      String_method = exampleString\<rparr>"

text \<open>A secret store with one secret, \<open>csi-secret\<close> in namespace \<open>default\<close>.\<close>

definition exampleSecret :: Secret where
  "exampleSecret =
     \<lparr>Data = [(''username'', [0x61, 0x6C, 0x69, 0x63, 0x65]),
              (''password'', [0x70, 0x40, 0x73, 0x73])]\<rparr>"

definition exampleGet :: "string \<Rightarrow> string \<Rightarrow> error + Secret" where
  "exampleGet namespace name =
     (if namespace = ''default'' \<and> name = ''csi-secret'' then Inr exampleSecret
      else Inl (Error ''secrets not found''))"

text \<open>A host that keeps the volume devices of a plugin below \<open>/var/lib/kubelet\<close>.\<close>

definition exampleHost :: VolumeHost where
  "exampleHost =
     \<lparr>GetVolumeDevicePluginDir =
        (\<lambda>pluginName. ''/var/lib/kubelet/plugins/'' @ pluginName @ ''/volumeDevices'')\<rparr>"




section \<open>Facts about the model\<close>

lemma collectSanitizeFields_find:
  "collectSanitizeFields flds acc =
     (case find annotated flds of
        None \<Rightarrow> acc
      | Some f \<Rightarrow> acc @ [f])"
  by (induction flds) (auto simp: annotated_def split: sum.splits)

lemma SanitizeMsg_collected_None:
  assumes "collected msg = None"
  shows "SanitizeMsg h (DescriptorMessage msg) = (Inr [], h, DescriptorMessage msg)"
  using assms
  by (simp add: SanitizeMsg_def collected_def collectSanitizeFields_find split: option.splits)

lemma SanitizeMsg_collected_Some:
  assumes "collected msg = Some field"
  shows "SanitizeMsg h (DescriptorMessage msg) =
           (case sanitizeField field h (dynamic_value msg) of
              (Panics p, h', s') \<Rightarrow> (Inl p, h', DescriptorMessage (msg\<lparr>dynamic_value := s'\<rparr>))
            | (Returns r, h', s') \<Rightarrow> (Inr r, h', DescriptorMessage (msg\<lparr>dynamic_value := s'\<rparr>))
            | (Continues, h', s') \<Rightarrow>
                (Inr (String_method msg h' s'), h', DescriptorMessage (msg\<lparr>dynamic_value := s'\<rparr>)))"
  using assms
  by (auto simp: SanitizeMsg_def collected_def collectSanitizeFields_find
           split: option.splits control.splits prod.splits)










lemmas model_defs =
  collected_def fieldValue_def capitalised_def annotated_def GetExtension_def GetName_def
  ToUpper_def ToUpper_char_def exported_def Indirect_def FieldByName_def
  plainField_def secretField_def


lemma sanitizeField_receiver: "snd (snd (sanitizeField field h s)) = s"
  by (auto simp: sanitizeField_def Let_def Indirect_def FieldByName_def AList.update_triv
           split: option.splits go_value.splits receiver.splits)

lemma sanitizeField_heap:
  "fst (snd (sanitizeField field h (dynamic_value msg))) =
     (case fieldValue msg field of
        Some (MapStringString m) \<Rightarrow> rangeAssignRef h m
      | _ \<Rightarrow> h)"
  by (auto simp: sanitizeField_def fieldValue_def capitalised_def Let_def
           split: option.splits go_value.splits receiver.splits)


lemmas eval_defs =
  SanitizeMsg_def sanitizeField_def rangeAssignRef_def rangeAssign_def marker_def
  GetExtension_def GetName_def ToUpper_def ToUpper_char_def exported_def Indirect_def
  FieldByName_def plainField_def secretField_def exampleString_def quoted_def Let_def


lemma fold_credentials_map_of:
  "distinct (map fst d) \<Longrightarrow>
   map_of (fold (\<lambda>(key, value) credentials. AList.update key (f value) credentials) d c) k =
     (case map_of d k of Some v \<Rightarrow> Some (f v) | None \<Rightarrow> map_of c k)"
proof (induction d arbitrary: c)
  case Nil
  then show ?case by simp
next
  case (Cons kv d)
  obtain k' v' where kv: "kv = (k', v')" by (cases kv)
  from Cons.prems kv have notin: "map_of d k' = None" and dist: "distinct (map fst d)"
    by (auto simp: map_of_eq_None_iff)
  show ?case
    using Cons.IH [OF dist, of "AList.update k' (f v') c"] kv notin
    by (auto simp: AList.update_conv' split: option.splits)
qed

lemma splitSlash_nonempty: "splitSlash s \<noteq> []"
  by (induction s) (auto split: list.splits)

lemma splitSlash_append:
  "splitSlash (a @ CHR ''/'' # b) = splitSlash a @ splitSlash b"
proof (induction a)
  case Nil
  then show ?case by simp
next
  case (Cons c a)
  obtain x xs where "splitSlash a = x # xs"
    using splitSlash_nonempty [of a] by (cases "splitSlash a") auto
  with Cons show ?case by simp
qed

lemma splitSlash_no_slash: "CHR ''/'' \<notin> set c \<Longrightarrow> splitSlash c = [c]"
  by (induction c) auto

lemma splitSlash_elems: "e \<in> set (splitSlash s) \<Longrightarrow> CHR ''/'' \<notin> set e"
  by (induction s arbitrary: e) (auto split: if_splits list.splits)

lemma cleanStep_kept:
  "list_all kept out \<Longrightarrow> CHR ''/'' \<notin> set elem \<Longrightarrow> list_all kept (cleanStep rooted out elem)"
  by (auto simp: cleanStep_def kept_def list_all_iff dest: in_set_butlastD)

lemma fold_cleanStep_kept:
  "list_all kept out \<Longrightarrow> \<forall>e \<in> set elems. CHR ''/'' \<notin> set e \<Longrightarrow>
   list_all kept (fold (\<lambda>elem out. cleanStep rooted out elem) elems out)"
  by (induction elems arbitrary: out) (auto simp: cleanStep_kept)

lemma joinSlash_snoc:
  "joinSlash (out @ [c]) = (if out = [] then c else joinSlash out @ CHR ''/'' # c)"
  by (induction out rule: joinSlash.induct) auto

lemma joinSlash_kept:
  assumes "list_all kept out" and "out \<noteq> []"
  shows "joinSlash out \<noteq> [] \<and> hd (joinSlash out) \<noteq> CHR ''/'' \<and> joinSlash out \<noteq> ''.''"
proof -
  obtain e es where out: "out = e # es" using assms(2) by (cases out) auto
  with assms(1) have e: "e \<noteq> []" "e \<noteq> ''.''" "CHR ''/'' \<notin> set e"
    by (auto simp: kept_def)
  then obtain c cs where ec: "e = c # cs" by (cases e) auto
  with e have c: "c \<noteq> CHR ''/''" by auto
  show ?thesis
  proof (cases es)
    case Nil
    with out e ec c show ?thesis by simp
  next
    case (Cons y ys)
    with out ec c e show ?thesis by auto
  qed
qed

lemma path_Clean_unfold:
  assumes "x \<noteq> []"
  shows "path_Clean x =
           (if hd x = CHR ''/''
            then CHR ''/'' # joinSlash (fold (\<lambda>elem out. cleanStep True out elem) (splitSlash x) [])
            else if fold (\<lambda>elem out. cleanStep False out elem) (splitSlash x) [] = [] then ''.''
            else joinSlash (fold (\<lambda>elem out. cleanStep False out elem) (splitSlash x) []))"
  using assms by (simp add: path_Clean_def Let_def)

lemma fold_cleanStep_snoc:
  assumes "c \<noteq> []" and "c \<noteq> ''.''" and "c \<noteq> ''..''" and "CHR ''/'' \<notin> set c"
  shows "fold (\<lambda>elem out. cleanStep r out elem) (splitSlash (x @ CHR ''/'' # c)) [] =
           fold (\<lambda>elem out. cleanStep r out elem) (splitSlash x) [] @ [c]"
  using assms by (simp add: splitSlash_append splitSlash_no_slash cleanStep_def)

lemma path_Clean_snoc:
  assumes "x \<noteq> []" and "c \<noteq> []" and "c \<noteq> ''.''" and "c \<noteq> ''..''" and "CHR ''/'' \<notin> set c"
  shows "path_Clean (x @ CHR ''/'' # c) = dirPrefix (path_Clean x) @ c"
proof -
  define r where "r = (hd x = CHR ''/'')"
  define out where "out = fold (\<lambda>elem out. cleanStep r out elem) (splitSlash x) []"
  have hd: "hd (x @ CHR ''/'' # c) = hd x"
    using assms(1) by simp
  have snoc: "fold (\<lambda>elem out. cleanStep r out elem) (splitSlash (x @ CHR ''/'' # c)) [] = out @ [c]"
    unfolding out_def by (rule fold_cleanStep_snoc [OF assms(2-5)])
  have kept: "list_all kept out"
    unfolding out_def by (rule fold_cleanStep_kept) (auto dest: splitSlash_elems)
  have clean_x: "path_Clean x =
      (if r then CHR ''/'' # joinSlash out else if out = [] then ''.'' else joinSlash out)"
    unfolding out_def r_def using path_Clean_unfold [OF assms(1)] by (cases "hd x = CHR ''/''") simp_all
  have "x @ CHR ''/'' # c \<noteq> []" by simp
  from path_Clean_unfold [OF this] snoc
  have clean_xc: "path_Clean (x @ CHR ''/'' # c) =
      (if r then CHR ''/'' # joinSlash (out @ [c]) else joinSlash (out @ [c]))"
    unfolding hd r_def by (cases "hd x = CHR ''/''") simp_all
  show ?thesis
  proof (cases "out = []")
    case True
    then show ?thesis
      unfolding clean_x clean_xc by (simp add: dirPrefix_def)
  next
    case False
    from joinSlash_kept [OF kept False]
    have j: "joinSlash out \<noteq> []" "hd (joinSlash out) \<noteq> CHR ''/''" "joinSlash out \<noteq> ''.''"
      by auto
    then have j': "joinSlash out \<noteq> ''/''" by auto
    from False j j' show ?thesis
      unfolding clean_x clean_xc by (simp add: dirPrefix_def joinSlash_snoc)
  qed
qed

lemma path_Join_snoc:
  assumes "c \<noteq> []" and "c \<noteq> ''.''" and "c \<noteq> ''..''" and "CHR ''/'' \<notin> set c"
  shows "path_Join [d, s, c] = dirPrefix (path_Join [d, s]) @ c"
proof (cases "d = []")
  case dnil: True
  show ?thesis
  proof (cases "s = []")
    case True
    from assms have "hd c \<noteq> CHR ''/''"
      by (cases c) auto
    with True dnil assms show ?thesis
      by (simp add: path_Join_def path_Clean_def dirPrefix_def Let_def
            splitSlash_no_slash cleanStep_def)
  next
    case False
    with dnil assms path_Clean_snoc [of s c] show ?thesis
      by (simp add: path_Join_def)
  qed
next
  case False
  have "d @ CHR ''/'' # s \<noteq> []" by simp
  from path_Clean_snoc [OF this assms] False assms show ?thesis
    by (simp add: path_Join_def)
qed

lemmas json_defs =
  goEncode_def sortByKey_def encodeString_def escapeASCII_def hexDigit_def utf8_size_def
  twoBytes_def threeBytes_def fourBytes_def continuation_def Let_def

lemmas path_defs = path_Join_def path_Clean_def cleanStep_def Let_def

lemma encodeBytes_numeral:
  "encodeBytes (numeral n) skip (b # bs) = b # encodeBytes (pred_numeral n) skip bs"
  "encodeBytes 0 (numeral n) (b # bs) = encodeBytes 0 (pred_numeral n) bs"
  by (simp_all add: numeral_eq_Suc)

lemma path_Clean_examples:
  "path_Clean [] = ''.''"
  "path_Clean ''/'' = ''/''"
  "path_Clean ''/var/lib//kubelet/./pods/../plugins/'' = ''/var/lib/kubelet/plugins''"
  "path_Clean ''a/../..'' = ''..''"
  "path_Clean ''../a/..'' = ''..''"
  "path_Clean ''/../a'' = ''/a''"
  "path_Clean ''a/..'' = ''.''"
  by (simp_all add: path_defs)

lemma path_Join_examples:
  "path_Join [[], ''a'', [], ''b''] = ''a/b''"
  "path_Join [[], []] = []"
  "path_Join [''/dir'', ''vol_data.json''] = ''/dir/vol_data.json''"
  "path_Join [''a/b'', ''../c''] = ''a/c''"
  by (simp_all add: path_defs)

lemma encodeString_examples:
  "encodeString ''vol-123'' = CHR 0x22 # ''vol-123'' @ [CHR 0x22]"
  "encodeString ''a<b'' = CHR 0x22 # ''a'' @ CHR 0x5C # ''u003cb'' @ [CHR 0x22]"
  "encodeString [CHR ''a'', CHR 0x22, CHR 0x0A] =
     [CHR 0x22, CHR ''a'', CHR 0x5C, CHR 0x22, CHR 0x5C, CHR ''n'', CHR 0x22]"
  "encodeString [CHR 0xC3, CHR 0xA9] = [CHR 0x22, CHR 0xC3, CHR 0xA9, CHR 0x22]"
  "encodeString [CHR 0xC3] = CHR 0x22 # CHR 0x5C # ''ufffd'' @ [CHR 0x22]"
  "encodeString [CHR 0xE2, CHR 0x80, CHR 0xA8, CHR ''x''] =
     CHR 0x22 # CHR 0x5C # ''u2028x'' @ [CHR 0x22]"
  "encodeString [CHR 0xE2, CHR 0x82, CHR 0xAC] = [CHR 0x22, CHR 0xE2, CHR 0x82, CHR 0xAC, CHR 0x22]"
  "encodeString [CHR 0xF0, CHR 0x9F, CHR 0x98, CHR 0x80] =
     [CHR 0x22, CHR 0xF0, CHR 0x9F, CHR 0x98, CHR 0x80, CHR 0x22]"
  "encodeString [CHR 0xED, CHR 0xA0, CHR 0x80] =
     CHR 0x22 # CHR 0x5C # ''ufffd'' @ CHR 0x5C # ''ufffd'' @ CHR 0x5C # ''ufffd'' @ [CHR 0x22]"
  by (simp_all add: json_defs encodeBytes_numeral)

lemma goEncode_examples:
  "goEncode None = Inr (''null'' @ [CHR 0x0A])"
  "goEncode (Some []) = Inr (''{}'' @ [CHR 0x0A])"
  "sortByKey [(''b'', ''1''), (''a'', ''2''), (''ab'', ''3'')] =
     [(''a'', ''2''), (''ab'', ''3''), (''b'', ''1'')]"
  by (simp_all add: json_defs)

section \<open>SanitizeMsg: redaction of the collected field\<close>



section \<open>SanitizeMsg: the empty result\<close>

text \<open>
  Claim C7. For a value that is no \<^verbatim>\<open>descriptor.Message\<close> (its type offers no schema
  metadata), and for a message whose schema has no annotated field (a nil field list
  included), \<^verbatim>\<open>SanitizeMsg\<close> returns the empty string and leaves the heap and the message as
  they were; a second call, made in the state the first one left, returns the empty
  string again.
\<close>

theorem SanitizeMsg_nothing_to_sanitize:
  assumes "pb = NotDescriptorMessage \<or>
           (\<exists>msg. pb = DescriptorMessage msg \<and>
              (\<forall>flds. Field msg = Some flds \<longrightarrow> (\<forall>f \<in> set flds. \<not> annotated f)))"
  shows "SanitizeMsg h pb = (Inr [], h, pb) \<and>
         SanitizeMsg (fst (snd (SanitizeMsg h pb))) (snd (snd (SanitizeMsg h pb))) = (Inr [], h, pb)"
proof -
  have "SanitizeMsg h pb = (Inr [], h, pb)"
  proof (cases pb)
    case NotDescriptorMessage
    then show ?thesis by (simp add: SanitizeMsg_def)
  next
    case (DescriptorMessage msg)
    with assms have none: "\<forall>flds. Field msg = Some flds \<longrightarrow> (\<forall>f \<in> set flds. \<not> annotated f)"
      by simp
    have "collected msg = None"
    proof (cases "Field msg")
      case None
      then show ?thesis by (simp add: collected_def)
    next
      case (Some flds)
      with none have "\<forall>f \<in> set flds. \<not> annotated f" by simp
      then have "find annotated flds = None" by (simp add: find_None_iff)
      with Some show ?thesis by (simp add: collected_def)
    qed
    with DescriptorMessage show ?thesis by (simp add: SanitizeMsg_collected_None)
  qed
  then show ?thesis by simp
qed

theorem SanitizeMsg_nothing_to_sanitize_witness:
  "Field plainMsg = Some [plainField ''volume_id''] \<and>
   \<not> annotated (plainField ''volume_id'') \<and>
   SanitizeMsg secretsHeap (DescriptorMessage plainMsg) =
     (Inr [], secretsHeap, DescriptorMessage plainMsg) \<and>
   SanitizeMsg secretsHeap NotDescriptorMessage = (Inr [], secretsHeap, NotDescriptorMessage)"
proof -
  have f: "Field plainMsg = Some [plainField ''volume_id'']"
    by (simp add: plainMsg_def)
  have a: "\<not> annotated (plainField ''volume_id'')"
    by (simp add: model_defs)
  from f a have "DescriptorMessage plainMsg = NotDescriptorMessage \<or>
           (\<exists>msg. DescriptorMessage plainMsg = DescriptorMessage msg \<and>
              (\<forall>flds. Field msg = Some flds \<longrightarrow> (\<forall>f \<in> set flds. \<not> annotated f)))"
    by simp
  from SanitizeMsg_nothing_to_sanitize [OF this, of secretsHeap]
  have 1: "SanitizeMsg secretsHeap (DescriptorMessage plainMsg) =
     (Inr [], secretsHeap, DescriptorMessage plainMsg)"
    by simp
  have 2: "SanitizeMsg secretsHeap NotDescriptorMessage = (Inr [], secretsHeap, NotDescriptorMessage)"
    using SanitizeMsg_nothing_to_sanitize [of NotDescriptorMessage secretsHeap] by simp
  from f a 1 2 show ?thesis by (intro conjI)
qed



section \<open>SanitizeMsg: what the caller's message looks like afterwards\<close>

text \<open>
  Claim C3, as the code has it. \<^verbatim>\<open>SanitizeMsg\<close> works on the caller's message, not on a
  copy. After the call every field of the message holds the value or the map reference
  it held before, and every map object is as it was, except for map objects referenced
  by an annotated field: such an object, which the caller's message shares, is changed
  only by the loop of lines 190-192, which puts the redaction marker at its keys.
\<close>

theorem SanitizeMsg_frame:
  "snd (snd (SanitizeMsg h pb)) = pb \<and>
   (\<forall>b. fst (snd (SanitizeMsg h pb)) b \<noteq> h b \<longrightarrow>
      sensitiveMap pb b \<and>
      fst (snd (SanitizeMsg h pb)) b = map_option rangeAssign (h b))"
proof (cases pb)
  case NotDescriptorMessage
  then show ?thesis by (simp add: SanitizeMsg_def)
next
  case (DescriptorMessage msg)
  show ?thesis
  proof (cases "collected msg")
    case None
    with DescriptorMessage show ?thesis by (simp add: SanitizeMsg_collected_None)
  next
    case (Some field)
    then obtain flds where flds: "Field msg = Some flds" and found: "find annotated flds = Some field"
      by (auto simp: collected_def split: option.splits)
    from found have field: "field \<in> set flds" "annotated field"
      by (auto simp: find_Some_iff)
    obtain c h' s' where sf: "sanitizeField field h (dynamic_value msg) = (c, h', s')"
      by (cases "sanitizeField field h (dynamic_value msg)")
    from sf sanitizeField_receiver [of field h "dynamic_value msg"]
    have s': "s' = dynamic_value msg" by simp
    from sf sanitizeField_heap [of field h msg]
    have h': "h' = (case fieldValue msg field of
        Some (MapStringString m) \<Rightarrow> rangeAssignRef h m | _ \<Rightarrow> h)" by simp
    from Some sf s' have res: "snd (SanitizeMsg h (DescriptorMessage msg)) = (h', DescriptorMessage msg)"
      by (cases c) (simp_all add: SanitizeMsg_collected_Some)
    have "\<forall>b. h' b \<noteq> h b \<longrightarrow>
      fieldValue msg field = Some (MapStringString (Some b)) \<and> h' b = map_option rangeAssign (h b)"
      unfolding h'
      by (auto simp: rangeAssignRef_def split: option.splits go_value.splits if_splits)
    with field flds have "\<forall>b. h' b \<noteq> h b \<longrightarrow>
      sensitiveMap (DescriptorMessage msg) b \<and> h' b = map_option rangeAssign (h b)"
      by (auto simp: sensitiveMap_def list_ex_iff)
    with DescriptorMessage res show ?thesis by simp
  qed
qed

theorem SanitizeMsg_frame_witness:
  "fst (snd (SanitizeMsg secretsHeap (DescriptorMessage secretsMsg))) 0 \<noteq> secretsHeap 0 \<and>
   snd (snd (SanitizeMsg secretsHeap (DescriptorMessage secretsMsg))) = DescriptorMessage secretsMsg \<and>
   sensitiveMap (DescriptorMessage secretsMsg) 0 \<and>
   fst (snd (SanitizeMsg secretsHeap (DescriptorMessage secretsMsg))) 0 =
     map_option rangeAssign (secretsHeap 0)"
proof -
  have changed: "fst (snd (SanitizeMsg secretsHeap (DescriptorMessage secretsMsg))) 0 \<noteq> secretsHeap 0"
    by (simp add: eval_defs secretsMsg_def secretsHeap_def)
  have same: "snd (snd (SanitizeMsg secretsHeap (DescriptorMessage secretsMsg))) =
      DescriptorMessage secretsMsg"
    using SanitizeMsg_frame [of secretsHeap "DescriptorMessage secretsMsg"]
    by (rule conjunct1)
  have "\<forall>b. fst (snd (SanitizeMsg secretsHeap (DescriptorMessage secretsMsg))) b \<noteq> secretsHeap b \<longrightarrow>
      sensitiveMap (DescriptorMessage secretsMsg) b \<and>
      fst (snd (SanitizeMsg secretsHeap (DescriptorMessage secretsMsg))) b =
        map_option rangeAssign (secretsHeap b)"
    using SanitizeMsg_frame [of secretsHeap "DescriptorMessage secretsMsg"]
    by (rule conjunct2)
  then have "fst (snd (SanitizeMsg secretsHeap (DescriptorMessage secretsMsg))) 0 \<noteq> secretsHeap 0 \<longrightarrow>
      sensitiveMap (DescriptorMessage secretsMsg) 0 \<and>
      fst (snd (SanitizeMsg secretsHeap (DescriptorMessage secretsMsg))) 0 =
        map_option rangeAssign (secretsHeap 0)"
    by (rule spec)
  from this changed have
    "sensitiveMap (DescriptorMessage secretsMsg) 0 \<and>
      fst (snd (SanitizeMsg secretsHeap (DescriptorMessage secretsMsg))) 0 =
        map_option rangeAssign (secretsHeap 0)"
    by (rule mp)
  with changed same show ?thesis by (intro conjI) simp_all
qed

text \<open>
  Claim C3 as stated fails: after the call on the message of the spec's example, the
  mapping of the caller's \<open>Secrets\<close> field holds the marker where the secrets were.
\<close>

theorem SanitizeMsg_mutates_caller_counterexample:
  "secretsHeap 0 = Some [(''username'', ''alice''), (''password'', ''p@ss'')] \<and>
   FieldByName [(''VolumeId'', StringValue ''vol-123''), (''Secrets'', MapStringString (Some 0))]
     ''Secrets'' = Some (MapStringString (Some 0)) \<and>
   SanitizeMsg secretsHeap (DescriptorMessage secretsMsg) =
     (Inr (exampleString
        (secretsHeap(0 \<mapsto> [(''username'', ''* * * Sanitized * * *''),
                               (''password'', ''* * * Sanitized * * *'')]))
        (PtrTo [(''VolumeId'', StringValue ''vol-123''), (''Secrets'', MapStringString (Some 0))])),
      secretsHeap(0 \<mapsto> [(''username'', ''* * * Sanitized * * *''),
                             (''password'', ''* * * Sanitized * * *'')]),
      DescriptorMessage secretsMsg)"
  by (simp add: eval_defs secretsMsg_def secretsHeap_def)

section \<open>SanitizeMsg: the returned string\<close>




section \<open>SanitizeMsg: inputs on which the code departs from the specification\<close>

text \<open>
  Claim C2 at a message with two annotated fields: the loop of lines 164-174 collects
  the first one only, and the mapping of the second one is printed as it is.
\<close>

theorem SanitizeMsg_collects_first_annotated_only:
  \<open>annotated (secretField ''secrets'') \<and> annotated (secretField ''credentials'') \<and>
   fieldValue twoSecretsMsg (secretField ''credentials'') = Some (MapStringString (Some 1)) \<and>
   twoSecretsHeap 1 = Some [(''token'', ''t0k3n'')] \<and>
   collectSanitizeFields [secretField ''secrets'', secretField ''credentials''] [] =
     [secretField ''secrets''] \<and>
   SanitizeMsg twoSecretsHeap (DescriptorMessage twoSecretsMsg) =
     (Inr ''Secrets:<key:"username" value:"* * * Sanitized * * *" > Credentials:<key:"token" value:"t0k3n" > '',
      twoSecretsHeap(0 \<mapsto> [(''username'', ''* * * Sanitized * * *'')]),
      DescriptorMessage twoSecretsMsg) \<and>
   fst (snd (SanitizeMsg twoSecretsHeap (DescriptorMessage twoSecretsMsg))) 1 =
     Some [(''token'', ''t0k3n'')]\<close>
  by (simp add: eval_defs model_defs twoSecretsMsg_def twoSecretsHeap_def)

text \<open>
  Claim C5 at two messages: one whose annotated field is named \<open>node_publish_secrets\<close>
  (the struct field is \<open>NodePublishSecrets\<close>, the code looks for
  \<open>Node_publish_secrets\<close>), and a nil pointer to a message with an annotated field.
  \<^verbatim>\<open>SanitizeMsg\<close> panics on both.
\<close>

theorem SanitizeMsg_panics:
  "capitalised ''node_publish_secrets'' = ''Node_publish_secrets'' \<and>
   SanitizeMsg secretsHeap (DescriptorMessage snakeMsg) =
     (Inl InterfaceOnZeroValue, secretsHeap, DescriptorMessage snakeMsg) \<and>
   SanitizeMsg secretsHeap (DescriptorMessage nilMsg) =
     (Inl FieldByNameOnNonStruct, secretsHeap, DescriptorMessage nilMsg)"
  by (simp add: eval_defs capitalised_def snakeMsg_def nilMsg_def)

section \<open>Credentials from a secret\<close>

text \<open>
  Claim C9. Whenever \<^verbatim>\<open>getCredentialsFromSecret\<close> returns, the mapping it returns is not
  nil. When the lookup fails it returns the empty mapping together with the lookup's
  error. When the lookup succeeds it returns, with no error, a mapping whose keys are
  exactly the keys of the secret's data and whose value at every key is the string of
  the bytes stored there. The keys of the secret's data are distinct, as the keys of a Go
  map are.
\<close>

theorem getCredentialsFromSecret_result:
  assumes "distinct (map fst (Data secret))"
  shows "(\<forall>r. getCredentialsFromSecret Get secretRef = Inr r \<longrightarrow> fst r \<noteq> None) \<and>
         (Get (secretNamespace ref) (secretName ref) = Inl err \<longrightarrow>
            getCredentialsFromSecret Get (Some ref) = Inr (Some [], Some err)) \<and>
         (Get (secretNamespace ref) (secretName ref) = Inr secret \<longrightarrow>
            (\<exists>credentials.
               getCredentialsFromSecret Get (Some ref) = Inr (Some credentials, None) \<and>
               dom (map_of credentials) = fst ` set (Data secret) \<and>
               (\<forall>(key, value) \<in> set (Data secret).
                  map_of credentials key = Some (string_of_bytes value))))"
proof (intro conjI impI allI)
  fix r
  assume "getCredentialsFromSecret Get secretRef = Inr r"
  then show "fst r \<noteq> None"
    by (auto simp: getCredentialsFromSecret_def split: option.splits sum.splits)
next
  assume "Get (secretNamespace ref) (secretName ref) = Inl err"
  then show "getCredentialsFromSecret Get (Some ref) = Inr (Some [], Some err)"
    by (simp add: getCredentialsFromSecret_def)
next
  assume get: "Get (secretNamespace ref) (secretName ref) = Inr secret"
  let ?credentials = "fold (\<lambda>(key, value) credentials.
      AList.update key (string_of_bytes value) credentials) (Data secret) []"
  have lookup: "map_of ?credentials k =
      (case map_of (Data secret) k of Some v \<Rightarrow> Some (string_of_bytes v) | None \<Rightarrow> None)" for k
    using fold_credentials_map_of [OF assms, of string_of_bytes "[]" k]
    by (simp split: option.splits)
  have "getCredentialsFromSecret Get (Some ref) = Inr (Some ?credentials, None)"
    using get by (simp add: getCredentialsFromSecret_def)
  moreover have "dom (map_of ?credentials) = fst ` set (Data secret)"
  proof -
    have "dom (map_of ?credentials) = dom (map_of (Data secret))"
      by (auto simp: lookup dom_def split: option.splits)
    then show ?thesis
      by (simp add: dom_map_of_conv_image_fst)
  qed
  moreover have "\<forall>(key, value) \<in> set (Data secret).
      map_of ?credentials key = Some (string_of_bytes value)"
    using assms by (auto simp: lookup)
  ultimately show "\<exists>credentials.
      getCredentialsFromSecret Get (Some ref) = Inr (Some credentials, None) \<and>
      dom (map_of credentials) = fst ` set (Data secret) \<and>
      (\<forall>(key, value) \<in> set (Data secret).
         map_of credentials key = Some (string_of_bytes value))"
    by blast
qed

theorem getCredentialsFromSecret_result_witness:
  "distinct (map fst (Data exampleSecret)) \<and>
   exampleGet ''default'' ''csi-secret'' = Inr exampleSecret \<and>
   exampleGet ''default'' ''missing'' = Inl (Error ''secrets not found'') \<and>
   getCredentialsFromSecret exampleGet
     (Some \<lparr>secretName = ''missing'', secretNamespace = ''default''\<rparr>) =
     Inr (Some [], Some (Error ''secrets not found'')) \<and>
   (\<exists>credentials.
      getCredentialsFromSecret exampleGet
        (Some \<lparr>secretName = ''csi-secret'', secretNamespace = ''default''\<rparr>) =
        Inr (Some credentials, None) \<and>
      dom (map_of credentials) = {''username'', ''password''} \<and>
      map_of credentials ''username'' = Some ''alice'' \<and>
      map_of credentials ''password'' = Some ''p@ss'')"
proof -
  let ?ok = "\<lparr>secretName = ''csi-secret'', secretNamespace = ''default''\<rparr>"
  let ?missing = "\<lparr>secretName = ''missing'', secretNamespace = ''default''\<rparr>"
  have d: "distinct (map fst (Data exampleSecret))"
    by (simp add: exampleSecret_def)
  have g1: "exampleGet ''default'' ''csi-secret'' = Inr exampleSecret"
    by (simp add: exampleGet_def)
  have g2: "exampleGet ''default'' ''missing'' = Inl (Error ''secrets not found'')"
    by (simp add: exampleGet_def)
  note fail_case = getCredentialsFromSecret_result
    [OF d, where Get = exampleGet and ref = ?missing and err = "Error ''secrets not found''"
       and secretRef = None, THEN conjunct2, THEN conjunct1, THEN mp]
  note ok_case = getCredentialsFromSecret_result
    [OF d, where Get = exampleGet and ref = ?ok and secretRef = None,
     THEN conjunct2, THEN conjunct2, THEN mp]
  have fail: "getCredentialsFromSecret exampleGet (Some ?missing) =
      Inr (Some [], Some (Error ''secrets not found''))"
    by (rule fail_case) (simp add: g2)
  have "\<exists>credentials.
      getCredentialsFromSecret exampleGet (Some ?ok) = Inr (Some credentials, None) \<and>
      dom (map_of credentials) = fst ` set (Data exampleSecret) \<and>
      (\<forall>(key, value) \<in> set (Data exampleSecret).
         map_of credentials key = Some (string_of_bytes value))"
    by (rule ok_case) (simp add: g1)
  then obtain credentials where
    c1: "getCredentialsFromSecret exampleGet (Some ?ok) = Inr (Some credentials, None)"
    and c2: "dom (map_of credentials) = fst ` set (Data exampleSecret)"
    and c3: "\<forall>(key, value) \<in> set (Data exampleSecret).
               map_of credentials key = Some (string_of_bytes value)"
    by (elim exE conjE)
  have s1: "string_of_bytes [0x61, 0x6C, 0x69, 0x63, 0x65] = ''alice''"
    by code_simp
  have s2: "string_of_bytes [0x70, 0x40, 0x73, 0x73] = ''p@ss''"
    by code_simp
  from c2 have k: "dom (map_of credentials) = {''username'', ''password''}"
    by (simp add: exampleSecret_def insert_commute)
  from c3 s1 have u: "map_of credentials ''username'' = Some ''alice''"
    by (simp add: exampleSecret_def)
  from c3 s2 have p: "map_of credentials ''password'' = Some ''p@ss''"
    by (simp add: exampleSecret_def)
  from c1 k u p have "\<exists>credentials.
      getCredentialsFromSecret exampleGet (Some ?ok) = Inr (Some credentials, None) \<and>
      dom (map_of credentials) = {''username'', ''password''} \<and>
      map_of credentials ''username'' = Some ''alice'' \<and>
      map_of credentials ''password'' = Some ''p@ss''"
    by (intro exI [of _ credentials] conjI)
  with d g1 g2 fail show ?thesis
    by (intro conjI)
qed

section \<open>Volume device directories\<close>

text \<open>
  Claim C10. For the same \<open>specVolID\<close> and host, the paths returned by
  \<^verbatim>\<open>getVolumeDevicePluginDir\<close> and \<^verbatim>\<open>getVolumeDeviceDataDir\<close> have the same prefix, the
  directory obtained by joining the host's volume-device plugin directory with the
  escaped volume identifier, and differ in the final path element only, \<open>dev\<close> against
  \<open>data\<close>.
\<close>

theorem volume_device_dirs_share_prefix:
  "getVolumeDevicePluginDir EscapeQualifiedNameForDisk specVolID host =
     dirPrefix (path_Join [GetVolumeDevicePluginDir host csiPluginName,
                           EscapeQualifiedNameForDisk specVolID]) @ ''dev'' \<and>
   getVolumeDeviceDataDir EscapeQualifiedNameForDisk specVolID host =
     dirPrefix (path_Join [GetVolumeDevicePluginDir host csiPluginName,
                           EscapeQualifiedNameForDisk specVolID]) @ ''data''"
  by (simp add: getVolumeDevicePluginDir_def getVolumeDeviceDataDir_def path_Join_snoc)

theorem volume_device_dirs_share_prefix_witness:
  "getVolumeDevicePluginDir (\<lambda>s. s) ''pvc-1234'' exampleHost =
     ''/var/lib/kubelet/plugins/kubernetes.io/csi/volumeDevices/pvc-1234/'' @ ''dev'' \<and>
   getVolumeDeviceDataDir (\<lambda>s. s) ''pvc-1234'' exampleHost =
     ''/var/lib/kubelet/plugins/kubernetes.io/csi/volumeDevices/pvc-1234/'' @ ''data''"
proof -
  have "dirPrefix (path_Join [GetVolumeDevicePluginDir exampleHost csiPluginName, ''pvc-1234'']) =
      ''/var/lib/kubelet/plugins/kubernetes.io/csi/volumeDevices/pvc-1234/''"
    by (simp add: exampleHost_def csiPluginName_def path_Join_def path_Clean_def
          cleanStep_def dirPrefix_def Let_def)
  with volume_device_dirs_share_prefix [of "\<lambda>s. s" "''pvc-1234''" exampleHost]
  show ?thesis by simp
qed

section \<open>Volume data files\<close>





end
